theory Spec2Isabelle
  imports Main "HOL-Library.Sublist" "HOL-Library.AList"
begin

section \<open>Python values and exceptions\<close>

text \<open>
  Python strings are modelled as \<open>string\<close> (lists of bytes, the UTF-8 encoding of the text).
  An exception is a value of \<open>py_error\<close>; a computation that may raise returns
  \<open>py_error + 'a\<close> with \<open>Inl\<close> for the exception. \<open>OSError\<close> stands for the whole
  family of operating-system failures (\<open>IOError\<close> is its alias in Python 3,
  \<open>FileNotFoundError\<close> and \<open>PermissionError\<close> are subclasses).
\<close>

datatype py_error =
    AttributeError
  | IndexError
  | KeyError
  | TypeError
  | NameError
  | ValueError string
  | OSError
  | RequestException
  | ReError

type_synonym path = string

definition bind_err :: "py_error + 'a \<Rightarrow> ('a \<Rightarrow> py_error + 'b) \<Rightarrow> py_error + 'b" where
  "bind_err r k = (case r of Inl e \<Rightarrow> Inl e | Inr x \<Rightarrow> k x)"

section \<open>\<open>os.path\<close>\<close>

definition os_path_basename :: "path \<Rightarrow> string" where
  "os_path_basename p = rev (takeWhile (\<lambda>c. c \<noteq> CHR ''/'') (rev p))"

text \<open>
  \<open>os.path.splitext\<close>: the extension starts at the last dot of the last component,
  unless only dots precede it there.
\<close>

definition os_path_splitext :: "path \<Rightarrow> string \<times> string" where
  "os_path_splitext p =
     (let name = os_path_basename p;
          dir = take (length p - length name) p;
          ext = rev (takeWhile (\<lambda>c. c \<noteq> CHR ''.'') (rev name));
          stem = take (length name - length ext - 1) name
      in if CHR ''.'' \<in> set name \<and> (\<exists>c \<in> set stem. c \<noteq> CHR ''.'')
         then (dir @ stem, CHR ''.'' # ext)
         else (p, []))"

text \<open>
  A call of \<open>os.path.splitext\<close> with a list of positional arguments: the function takes
  exactly one, and Python raises \<open>TypeError\<close> for any other number.
\<close>

definition call_os_path_splitext :: "string list \<Rightarrow> py_error + string \<times> string" where
  "call_os_path_splitext args =
     (case args of [p] \<Rightarrow> Inr (os_path_splitext p) | _ \<Rightarrow> Inl TypeError)"

definition os_path_join :: "path \<Rightarrow> path \<Rightarrow> path" where
  "os_path_join a b =
     (if b \<noteq> [] \<and> hd b = CHR ''/'' then b
      else if a = [] \<or> last a = CHR ''/'' then a @ b
      else a @ ''/'' @ b)"

section \<open>\<open>utils/file_ops.py\<close>: file names\<close>

definition get_filename :: "path \<Rightarrow> bool \<Rightarrow> py_error + string" where
  "get_filename file_path with_extension =
     (if with_extension then Inr (os_path_basename file_path)
      else bind_err (call_os_path_splitext [os_path_basename file_path, ''.tar.gz''])
             (\<lambda>r. Inr (fst r)))"

section \<open>\<open>train_models_dag.py\<close>: the tasks built for each job descriptor\<close>

record task =
  task_id :: string
  bash_command :: string

text \<open>
  The module-level loop over \<open>glob(AIRFLOW_TRAINABLE_FOLDER/*.json)\<close>. The research folder,
  the zone and \<open>train_models.get_gcp_training_data_url\<close> (a module that
  is not part of these sources) are parameters. The loop returns the three tasks of every
  descriptor, or the first exception raised.
\<close>

definition job_command :: "string \<Rightarrow> string \<Rightarrow> string \<Rightarrow> string \<Rightarrow> string \<Rightarrow> string" where
  "job_command research_folder gcp_zone kind training_name gcp_url =
     ''cd '' @ research_folder @ '' && gcloud ai-platform jobs submit training ''
       @ kind @ ''_'' @ training_name @ ''_`date +%s` --job-dir='' @ gcp_url @ ''/''
       @ '' --packages dist/object_detection-0.1.tar.gz,slim/dist/slim-0.1.tar.gz,/tmp/pycocotools/pycocotools-2.0.tar.gz''
       @ '' --module-name object_detection.model_main --runtime-version 1.13''
       @ '' --scale-tier BASIC_GPU --region '' @ gcp_zone
       @ '' -- --model_dir='' @ gcp_url @ ''/train_data/''
       @ '' --pipeline_config_path='' @ gcp_url @ ''/pipeline.config''
       @ (if kind = ''eval'' then '' --checkpoint_dir='' @ gcp_url @ ''/train_data/'' else [])"

fun training_tasks ::
  "string \<Rightarrow> string \<Rightarrow> (path \<Rightarrow> py_error + string) \<Rightarrow> path list \<Rightarrow> py_error + task list" where
  "training_tasks research_folder gcp_zone get_gcp_training_data_url [] = Inr []"
| "training_tasks research_folder gcp_zone get_gcp_training_data_url (json_file # rest) =
     bind_err (get_filename json_file False) (\<lambda>training_name.
     bind_err (get_gcp_training_data_url json_file) (\<lambda>gcp_url.
     bind_err (training_tasks research_folder gcp_zone get_gcp_training_data_url rest) (\<lambda>tasks.
       Inr (\<lparr>task_id = ''train_model_'' @ training_name @ ''_on_basic_gpu'',
              bash_command = job_command research_folder gcp_zone ''train'' training_name gcp_url\<rparr>
          # \<lparr>task_id = ''delay_eval_'' @ training_name, bash_command = ''sleep 6m''\<rparr>
          # \<lparr>task_id = ''eval_model_'' @ training_name @ ''_on_basic_gpu'',
              bash_command = job_command research_folder gcp_zone ''eval'' training_name gcp_url\<rparr>
          # tasks))))"

section \<open>\<open>export_labeled_dataset_and_create_tf_record.py\<close>: project resolution\<close>

record project =
  project_id :: string
  project_name :: string

text \<open>
  \<open>__get_specific_project_id(client, project_name)\<close>; the client is represented by the
  project list that \<open>__get_projects(client)\<close> returns.
\<close>

fun get_specific_project_id :: "project list \<Rightarrow> string \<Rightarrow> py_error + string" where
  "get_specific_project_id [] name = Inl (ValueError ''Project name not found'')"
| "get_specific_project_id (p # projects) name =
     (if project_name p = name then Inr (project_id p)
      else get_specific_project_id projects name)"

section \<open>Strings\<close>

text \<open>
  \<open>replace_all pat rep s\<close> replaces the leftmost non-overlapping occurrences of \<open>pat\<close> in
  \<open>s\<close> by \<open>rep\<close>, as \<open>str.replace\<close> does and as \<open>re.sub\<close> does for a pattern without regular
  expression operators and a replacement without backslash. For the empty pattern Python
  inserts the replacement before every character and at the end.
\<close>

fun replace_all :: "string \<Rightarrow> string \<Rightarrow> string \<Rightarrow> string" where
  "replace_all pat rep [] = (if pat = [] then rep else [])"
| "replace_all pat rep (c # cs) =
     (if pat = [] then rep @ c # replace_all pat rep cs
      else if prefix pat (c # cs) then rep @ replace_all pat rep (drop (length pat) (c # cs))
      else c # replace_all pat rep cs)"

text \<open>
  \<open>re.sub(pattern, repl, string)\<close> for a pattern that is a plain word. A replacement
  without backslash is taken literally; one with a backslash is first expanded by the
  \<open>re\<close> module's template parser (escapes and group references), which is the parameter
  \<open>parse_template\<close> and may raise.
\<close>

definition re_sub ::
  "(string \<Rightarrow> string \<Rightarrow> py_error + string) \<Rightarrow> string \<Rightarrow> string \<Rightarrow> string \<Rightarrow> py_error + string" where
  "re_sub parse_template pat repl s =
     (if CHR 0x5C \<notin> set repl then Inr (replace_all pat repl s)
      else bind_err (parse_template pat repl) (\<lambda>lit. Inr (replace_all pat lit s)))"








section \<open>The world: file system, network, log\<close>

record entry =
  model_release_date :: "string option"
  model_folder_name :: string
  model_file_name :: string
  model_url :: string
  model_name :: string

text \<open>
  An \<open>a\<close> element of a rendered page. The pages are rendered by \<open>mistune.markdown\<close>, which
  escapes the HTML of the text itself, so every \<open>a\<close> element is a link that mistune has
  made and carries its target: \<open>link.attrs["href"]\<close> is always there.
\<close>

record link =
  link_href :: string
  link_text :: string

text \<open>A response of \<open>requests.get\<close>: \<open>response_body\<close> is what \<open>text\<close> and \<open>raw\<close> give.\<close>

record response =
  response_url :: string
  status_code :: nat
  response_body :: string

datatype level = INFO | WARNING | ERROR

text \<open>
  The state the scripts act on. \<open>files\<close> holds the regular files with their contents, in
  the order a directory listing gives them; \<open>csv_tables\<close> holds the CSV files, as the table
  that pandas reads from them. \<open>unwritable\<close> says at which paths creating or writing fails
  (permissions, a missing parent, a full disk), \<open>http\<close> what a GET request returns,
  \<open>same_stat\<close> whether two files have the same size and modification time, and
  \<open>archive_members\<close> which files an archive unpacks to. \<open>requests_made\<close> records the URLs
  requested so far. Three fields stand for libraries: \<open>rendered_anchors\<close> gives the \<open>a\<close>
  elements that BeautifulSoup finds in the page \<open>mistune.markdown\<close> makes of a text,
  \<open>decimal_digits\<close> is the table of the decimal digits of Unicode, and \<open>csv_read_back\<close>
  gives the table that pandas reads from the file it has written for a table (a name
  such as \<open>NA\<close> comes back as a missing value).
\<close>

record world =
  files :: "(path \<times> string) list"
  dirs :: "path list"
  csv_tables :: "(path \<times> entry list) list"
  unwritable :: "path \<Rightarrow> bool"
  http :: "string \<Rightarrow> py_error + response"
  same_stat :: "path \<Rightarrow> path \<Rightarrow> bool"
  archive_members :: "string \<Rightarrow> py_error + (path \<times> string) list"
  rendered_anchors :: "string \<Rightarrow> link list"
  decimal_digits :: "string list"
  csv_read_back :: "entry list \<Rightarrow> entry list"
  logged :: "(level \<times> string) list"
  printed :: "string list"
  requests_made :: "string list"

type_synonym 'a io = "world \<Rightarrow> (py_error + 'a) \<times> world"

definition return_io :: "'a \<Rightarrow> 'a io" where
  "return_io x w = (Inr x, w)"

definition raise_io :: "py_error \<Rightarrow> 'a io" where
  "raise_io e w = (Inl e, w)"

definition bind_io :: "'a io \<Rightarrow> ('a \<Rightarrow> 'b io) \<Rightarrow> 'b io" where
  "bind_io m k w = (case m w of (Inl e, w') \<Rightarrow> (Inl e, w') | (Inr x, w') \<Rightarrow> k x w')"

text \<open>\<open>try: m except E: handler\<close>, where \<open>caught\<close> recognises the exceptions of class \<open>E\<close>.\<close>

definition try_except :: "'a io \<Rightarrow> (py_error \<Rightarrow> bool) \<Rightarrow> 'a io \<Rightarrow> 'a io" where
  "try_except m caught handler w =
     (case m w of
        (Inl e, w') \<Rightarrow> if caught e then handler w' else (Inl e, w')
      | (Inr x, w') \<Rightarrow> (Inr x, w'))"

primrec for_each :: "'a list \<Rightarrow> ('a \<Rightarrow> unit io) \<Rightarrow> unit io" where
  "for_each [] body = return_io ()"
| "for_each (x # xs) body = bind_io (body x) (\<lambda>_. for_each xs body)"

definition logging_info :: "string \<Rightarrow> unit io" where
  "logging_info msg w = (Inr (), w\<lparr>logged := logged w @ [(INFO, msg)]\<rparr>)"

definition logging_warn :: "string \<Rightarrow> unit io" where
  "logging_warn msg w = (Inr (), w\<lparr>logged := logged w @ [(WARNING, msg)]\<rparr>)"

definition logging_error :: "string \<Rightarrow> unit io" where
  "logging_error msg w = (Inr (), w\<lparr>logged := logged w @ [(ERROR, msg)]\<rparr>)"

definition print :: "string \<Rightarrow> unit io" where
  "print msg w = (Inr (), w\<lparr>printed := printed w @ [msg]\<rparr>)"

definition os_path_exists :: "world \<Rightarrow> path \<Rightarrow> bool" where
  "os_path_exists w p =
     (p \<in> set (dirs w) \<or> p \<in> set (map fst (files w)) \<or> p \<in> set (map fst (csv_tables w)))"

text \<open>The proper ancestors of a path: its prefixes that end before a separator.\<close>

definition path_parents :: "path \<Rightarrow> path list" where
  "path_parents p = map (\<lambda>i. take i p) (filter (\<lambda>i. p ! i = CHR ''/'') [1..<length p])"

definition os_makedirs :: "path \<Rightarrow> unit io" where
  "os_makedirs p w =
     (if os_path_exists w p \<or> unwritable w p then (Inl OSError, w)
      else (Inr (), w\<lparr>dirs := dirs w @ filter (\<lambda>d. d \<notin> set (dirs w)) (path_parents p @ [p])\<rparr>))"

definition os_mkdir :: "path \<Rightarrow> unit io" where
  "os_mkdir p w =
     (if os_path_exists w p \<or> unwritable w p then (Inl OSError, w)
      else (Inr (), w\<lparr>dirs := dirs w @ [p]\<rparr>))"

definition os_remove :: "path \<Rightarrow> unit io" where
  "os_remove p w =
     (if p \<in> set (map fst (files w)) then (Inr (), w\<lparr>files := AList.delete p (files w)\<rparr>)
      else (Inl OSError, w))"

text \<open>\<open>with open(p, "w") as f: f.write(content)\<close>\<close>

definition write_file :: "path \<Rightarrow> string \<Rightarrow> unit io" where
  "write_file p content w =
     (if unwritable w p \<or> p \<in> set (dirs w) then (Inl OSError, w)
      else (Inr (), w\<lparr>files := AList.update p content (files w)\<rparr>))"

definition read_file :: "path \<Rightarrow> string io" where
  "read_file p w = (case map_of (files w) p of None \<Rightarrow> (Inl OSError, w) | Some c \<Rightarrow> (Inr c, w))"

definition requests_get :: "string \<Rightarrow> response io" where
  "requests_get u w = (http w u, w\<lparr>requests_made := requests_made w @ [u]\<rparr>)"

definition read_csv :: "path \<Rightarrow> entry list io" where
  "read_csv p w =
     (case map_of (csv_tables w) p of None \<Rightarrow> (Inl OSError, w) | Some df \<Rightarrow> (Inr df, w))"


definition folder_exist_or_create :: "path \<Rightarrow> unit io" where
  "folder_exist_or_create folder_path w =
     (if \<not> os_path_exists w folder_path then os_makedirs folder_path w else (Inr (), w))"

section \<open>Library calls on the world\<close>

text \<open>
  \<open>os.path.split\<close>: the part up to the last separator, without trailing separators unless
  it consists of separators only, and the part after it.
\<close>

definition os_path_split :: "path \<Rightarrow> path \<times> string" where
  "os_path_split p =
     (let tail = os_path_basename p;
          head = take (length p - length tail) p
      in (if \<exists>c \<in> set head. c \<noteq> CHR ''/''
          then rev (dropWhile (\<lambda>c. c = CHR ''/'') (rev head)) else head,
          tail))"

text \<open>
  \<open>glob.glob(pre + "*" + suf)\<close> for a prefix without glob operators and a suffix without
  separator. The pattern is split into its directory and the pattern of the name; the result
  are the entries of that directory whose name starts with the rest of \<open>pre\<close> and ends with
  \<open>suf\<close>, each as the directory joined with the name. A name that starts with a dot is
  matched only when the pattern of the name starts with one.
\<close>

definition glob_star :: "string \<Rightarrow> string \<Rightarrow> world \<Rightarrow> path list" where
  "glob_star pre suf w =
     (let dirname = fst (os_path_split pre);
          name_start = snd (os_path_split pre)
      in filter (\<lambda>p. let name = os_path_basename p
                    in p = os_path_join dirname name
                       \<and> prefix name_start name \<and> suffix suf name
                       \<and> length name_start + length suf \<le> length name
                       \<and> (prefix ''.'' name \<longrightarrow> prefix ''.'' name_start))
           (map fst (files w) @ dirs w))"

definition glob_each :: "path list \<Rightarrow> string \<Rightarrow> path list io" where
  "glob_each subfolders suf w =
     (Inr (concat (map (\<lambda>subfolder. glob_star (subfolder @ ''/'') suf w) subfolders)), w)"

text \<open>
  \<open>filecmp.cmp(f1, f2)\<close> in its default shallow mode: files with the same size and
  modification time are reported equal without reading them, otherwise the contents
  are compared.
\<close>

definition filecmp_cmp :: "path \<Rightarrow> path \<Rightarrow> bool io" where
  "filecmp_cmp f1 f2 w =
     (if \<not> os_path_exists w f1 \<or> \<not> os_path_exists w f2 then (Inl OSError, w)
      else case (map_of (files w) f1, map_of (files w) f2) of
             (Some c1, Some c2) \<Rightarrow> (Inr (same_stat w f1 f2 \<or> c1 = c2), w)
           | _ \<Rightarrow> (Inr False, w))"

text \<open>Reading in text mode turns every line ending into a line feed.\<close>

definition read_text :: "path \<Rightarrow> string io" where
  "read_text p =
     bind_io (read_file p) (\<lambda>c.
       return_io (replace_all [CHR 0x0D] [CHR 0x0A] (replace_all [CHR 0x0D, CHR 0x0A] [CHR 0x0A] c)))"


definition shutil_copy2 :: "path \<Rightarrow> path \<Rightarrow> unit io" where
  "shutil_copy2 src dst w =
     (case map_of (files w) src of
        None \<Rightarrow> (Inl OSError, w)
      | Some c \<Rightarrow>
          (let target = (if dst \<in> set (dirs w) then os_path_join dst (os_path_basename src) else dst)
           in if target = src then (Inl OSError, w) else write_file target c w))"

definition shutil_unpack_archive :: "path \<Rightarrow> path \<Rightarrow> unit io" where
  "shutil_unpack_archive tar_file extract_dir =
     bind_io (read_file tar_file) (\<lambda>bytes w.
       case archive_members w bytes of
         Inl e \<Rightarrow> (Inl e, w)
       | Inr members \<Rightarrow>
           for_each members (\<lambda>(rel, c) w'.
             write_file (os_path_join extract_dir rel) c
               (w'\<lparr>dirs := dirs w' @ filter (\<lambda>d. d \<notin> set (dirs w'))
                                      (path_parents (os_path_join extract_dir rel))\<rparr>)) w)"

section \<open>The module \<open>utils.file_ops\<close> as the scripts see it\<close>

text \<open>
  The scripts call four functions of \<open>file_ops\<close> by attribute access. A module is given by
  what each of these names is bound to, if anything; calling a name that the module does not
  bind raises \<open>AttributeError\<close>. The file \<open>utils/file_ops.py\<close> defines none of the four:
  it is \<open>file_ops_py\<close>.
\<close>

record file_ops_module =
  get_directory_subfolders_subset :: "(world \<Rightarrow> path \<Rightarrow> string \<Rightarrow> path list) option"
  get_subfolders_in_directory :: "(world \<Rightarrow> path \<Rightarrow> path list) option"
  get_subfolders_names_in_directory :: "(world \<Rightarrow> path \<Rightarrow> string list) option"
  copy_files_from_folder :: "(path \<Rightarrow> path \<Rightarrow> unit io) option"

definition file_ops_py :: file_ops_module where
  "file_ops_py =
     \<lparr>get_directory_subfolders_subset = None,
      get_subfolders_in_directory = None,
      get_subfolders_names_in_directory = None,
      copy_files_from_folder = None\<rparr>"

definition call_attr :: "'f option \<Rightarrow> ('f \<Rightarrow> 'a io) \<Rightarrow> 'a io" where
  "call_attr attr call w = (case attr of None \<Rightarrow> (Inl AttributeError, w) | Some f \<Rightarrow> call f w)"

section \<open>\<open>prepare_model_and_data_for_training.py\<close>: the model catalog\<close>






section \<open>\<open>prepare_model_and_data_for_training.py\<close>: base models\<close>

definition download_model :: "path \<Rightarrow> entry \<Rightarrow> unit io" where
  "download_model base_model_folder e =
     bind_io (logging_info (''Model '' @ model_folder_name e @ '' not found '')) (\<lambda>_.
     bind_io (os_mkdir (os_path_join base_model_folder (model_folder_name e))) (\<lambda>_.
     try_except
       (bind_io (requests_get (model_url e)) (\<lambda>resp.
        bind_io (logging_info (''Downloading '' @ model_url e @ '' .....'')) (\<lambda>_.
        if status_code resp = 200
        then (let tar_file = os_path_join base_model_folder (model_file_name e)
              in bind_io (write_file tar_file (response_body resp)) (\<lambda>_.
                 bind_io (logging_info (''Extracting '' @ tar_file @ '' .....'')) (\<lambda>_.
                 bind_io (shutil_unpack_archive tar_file base_model_folder) (\<lambda>_.
                 os_remove tar_file))))
        else return_io ())))
       (\<lambda>err. err = RequestException)
       (logging_error (''An error occurred while downloading the file from '' @ model_url e))))"

text \<open>
  The rows of the catalog that are synchronised: all of them when no list of names is
  given, otherwise the rows whose \<open>model_name\<close> is in the list.
\<close>

definition select_models :: "entry list \<Rightarrow> string list option \<Rightarrow> entry list" where
  "select_models models_df required_base_models =
     (case required_base_models of
        None \<Rightarrow> models_df
      | Some required \<Rightarrow> filter (\<lambda>e. model_name e \<in> set required) models_df)"

definition download_and_extract_base_model ::
  "file_ops_module \<Rightarrow> path \<Rightarrow> path \<Rightarrow> string list option \<Rightarrow> unit io" where
  "download_and_extract_base_model file_ops base_model_csv base_model_folder required_base_models =
     bind_io (read_csv base_model_csv) (\<lambda>models_df.
       let models_subset = select_models models_df required_base_models
       in bind_io (call_attr (get_subfolders_names_in_directory file_ops)
                     (\<lambda>f w. (Inr (f w base_model_folder), w))) (\<lambda>subfolders.
          for_each models_subset (\<lambda>e.
            if model_folder_name e \<notin> set subfolders
            then download_model base_model_folder e
            else logging_info ''All base models are already present'')))"




section \<open>\<open>prepare_model_and_data_for_training.py\<close>: label maps, images, TFRecords\<close>

fun first_label_maps :: "path list \<Rightarrow> path list io" where
  "first_label_maps [] = return_io []"
| "first_label_maps (subfolder # subfolders) =
     (\<lambda>w. case glob_star subfolder ''.pbtxt'' w of
            [] \<Rightarrow> (Inl IndexError, w)
          | label_map # _ \<Rightarrow>
              bind_io (first_label_maps subfolders) (\<lambda>label_maps. return_io (label_map # label_maps)) w)"

fun compare_with_reference :: "path \<Rightarrow> path list \<Rightarrow> bool \<Rightarrow> bool io" where
  "compare_with_reference reference_label_map [] labelmap_match = return_io labelmap_match"
| "compare_with_reference reference_label_map (label_map # label_maps) labelmap_match =
     bind_io (print label_map) (\<lambda>_.
     bind_io (logging_info (''Reference File: '' @ reference_label_map)) (\<lambda>_.
     bind_io (filecmp_cmp label_map reference_label_map) (\<lambda>same.
       if same
       then bind_io (print (''[ MATCH ] | LabelMap:'' @ label_map @ '' '')) (\<lambda>_.
              compare_with_reference reference_label_map label_maps labelmap_match)
       else bind_io (print (''[ FAILED ] | LabelMap:'' @ label_map @ '' '')) (\<lambda>_.
              compare_with_reference reference_label_map label_maps False))))"

text \<open>The result \<open>None\<close> is Python's \<open>None\<close>: the function ends without a \<open>return\<close>.\<close>

definition compare_label_map_file :: "file_ops_module \<Rightarrow> path \<Rightarrow> string \<Rightarrow> bool option io" where
  "compare_label_map_file file_ops base_tf_record_folder video_source =
     bind_io (call_attr (get_directory_subfolders_subset file_ops)
                (\<lambda>f w. (Inr (f w base_tf_record_folder video_source), w))) (\<lambda>subfolders.
       if length subfolders > 1
       then bind_io (first_label_maps subfolders) (\<lambda>label_maps.
              case label_maps of
                [] \<Rightarrow> raise_io IndexError
              | reference_label_map # _ \<Rightarrow>
                  bind_io (compare_with_reference reference_label_map label_maps True)
                    (\<lambda>labelmap_match. return_io (Some labelmap_match)))
       else bind_io (logging_warn
                       ''There were not enough dataset to compare i.g : Less than two'')
              (\<lambda>_. return_io None))"


definition copy_records :: "path list \<Rightarrow> path \<Rightarrow> unit io" where
  "copy_records tf_record_files folder =
     for_each tf_record_files (\<lambda>tf_record.
       bind_io (shutil_copy2 tf_record folder) (\<lambda>_.
       logging_info (''Copied '' @ tf_record @ '' to '' @ folder)))"

definition write_labelmap :: "path list \<Rightarrow> path \<Rightarrow> unit io" where
  "write_labelmap labelmap_files tf_records_target =
     (let labelmap_file = tf_records_target @ ''/labelmap.pbtxt''
      in bind_io (write_file labelmap_file []) (\<lambda>_.
         case labelmap_files of
           [] \<Rightarrow> raise_io IndexError
         | first_labelmap # _ \<Rightarrow>
             bind_io (read_text first_labelmap) (\<lambda>content.
             bind_io (write_file labelmap_file content) (\<lambda>_.
             logging_info (''Copied '' @ labelmap_file @ '' to '' @ tf_records_target)))))"

definition copy_tf_records_to_training_folder ::
  "file_ops_module \<Rightarrow> path \<Rightarrow> path \<Rightarrow> string \<Rightarrow> unit io" where
  "copy_tf_records_to_training_folder file_ops tf_records_folder model_training_tf_records_folder video_source =
     (let training_tf_records_train_folder = model_training_tf_records_folder @ ''/train'';
          training_tf_records_val_folder = model_training_tf_records_folder @ ''/val''
      in bind_io (folder_exist_or_create training_tf_records_train_folder) (\<lambda>_.
         bind_io (folder_exist_or_create training_tf_records_val_folder) (\<lambda>_.
         bind_io (call_attr (get_directory_subfolders_subset file_ops)
                    (\<lambda>f w. (Inr (f w tf_records_folder video_source), w))) (\<lambda>subfolders.
         bind_io (glob_each subfolders ''.pbtxt'') (\<lambda>labelmap_files.
         bind_io (glob_each subfolders ''_train.record'') (\<lambda>tf_record_train_files.
         bind_io (glob_each subfolders ''_val.record'') (\<lambda>tf_record_val_files.
         bind_io (copy_records tf_record_train_files training_tf_records_train_folder) (\<lambda>_.
         bind_io (copy_records tf_record_val_files training_tf_records_val_folder) (\<lambda>_.
         bind_io (write_labelmap labelmap_files model_training_tf_records_folder) (\<lambda>_.
         logging_info
           ''Completed copy of all tf records file to temporary training tf records folder''))))))))))"


section \<open>\<open>prepare_model_and_data_for_training.py\<close>: the pipeline configuration\<close>

text \<open>
  The seven \<open>re.sub\<close> statements of \<open>generate_model_config\<close>, in their order.
  The numbers arrive as strings, so \<open>str\<close> leaves them as they are.
\<close>

definition substitute_placeholders ::
  "(string \<Rightarrow> string \<Rightarrow> py_error + string) \<Rightarrow> string \<Rightarrow> string \<Rightarrow> string \<Rightarrow> string \<Rightarrow> string
     \<Rightarrow> string \<Rightarrow> py_error + string" where
  "substitute_placeholders parse_template model_folder_ts model_config_template num_classes
       bucket_url training_batch_size training_epoch_count =
     (let pre_trained_model_checkpoint_path =
            bucket_url @ ''/'' @ model_folder_ts @ ''/model/base/model.ckpt'';
          label_map_path =
            bucket_url @ ''/'' @ model_folder_ts @ ''/data/tf_records/labelmap.pbtxt'';
          train_tf_record_path =
            bucket_url @ ''/'' @ model_folder_ts @ ''/data/tf_records/train/*.record'';
          val_tf_record_path =
            bucket_url @ ''/'' @ model_folder_ts @ ''/data/tf_records/val/*.record''
      in bind_err (re_sub parse_template ''NUM_CLASSES'' num_classes model_config_template) (\<lambda>t1.
         bind_err (re_sub parse_template ''PRE_TRAINED_MODEL_CHECKPOINT_PATH''
                     pre_trained_model_checkpoint_path t1) (\<lambda>t2.
         bind_err (re_sub parse_template ''LABEL_MAP_PATH'' label_map_path t2) (\<lambda>t3.
         bind_err (re_sub parse_template ''TRAIN_TF_RECORD_PATH'' train_tf_record_path t3) (\<lambda>t4.
         bind_err (re_sub parse_template ''VAL_TF_RECORD_PATH'' val_tf_record_path t4) (\<lambda>t5.
         bind_err (re_sub parse_template ''TRAINING_BATCH_SIZE'' training_batch_size t5) (\<lambda>t6.
         re_sub parse_template ''TRAINING_EPOCH_COUNT'' training_epoch_count t6)))))))"

text \<open>
  In the handler of the write loop the source raises the name \<open>e\<close>, which is bound neither in
  the function (the handler binds \<open>error\<close>) nor in the module: evaluating it raises
  \<open>NameError\<close>.
\<close>

definition generate_model_config ::
  "(string \<Rightarrow> string \<Rightarrow> py_error + string) \<Rightarrow> path \<Rightarrow> path \<Rightarrow> string \<Rightarrow> string \<Rightarrow> string
     \<Rightarrow> string \<Rightarrow> string \<Rightarrow> string \<Rightarrow> unit io" where
  "generate_model_config parse_template model_training_folder model_repo_folder model_folder_ts
       model_config_template num_classes bucket_url training_batch_size training_epoch_count =
     (let pipeline_config_files =
            [model_training_folder @ ''/pipeline.config'', model_repo_folder @ ''/pipeline.config'']
      in case substitute_placeholders parse_template model_folder_ts model_config_template
                num_classes bucket_url training_batch_size training_epoch_count of
           Inl err \<Rightarrow> raise_io err
         | Inr config_text \<Rightarrow>
             bind_io (for_each pipeline_config_files (\<lambda>config_file.
                 try_except
                   (bind_io (write_file config_file config_text) (\<lambda>_.
                    logging_info (''Model config file has been created successfully at ''
                                  @ config_file)))
                   (\<lambda>err. err = OSError)
                   (bind_io (logging_error
                      ''An error has been raised while trying to save the model config to a file on disk'')
                      (\<lambda>_. raise_io NameError)))) (\<lambda>_.
             logging_info ''Generated training pipeline config file''))"

text \<open>A world for examples: an empty disk where every write succeeds and no host answers.\<close>

definition empty_world :: world where
  "empty_world =
     \<lparr>files = [], dirs = [], csv_tables = [], unwritable = (\<lambda>p. False),
      http = (\<lambda>u. Inl RequestException), same_stat = (\<lambda>p q. False),
      archive_members = (\<lambda>bytes. Inr []), rendered_anchors = (\<lambda>page. []),
      decimal_digits = map (\<lambda>c. [c]) ''0123456789'',
      csv_read_back = (\<lambda>df. df), logged = [], printed = [], requests_made = []\<rparr>"

section \<open>Example worlds\<close>

definition ssd_entry :: entry where
  "ssd_entry =
     \<lparr>model_release_date = Some ''2020_01_01'',
      model_folder_name = ''ssd_mobilenet_v2'',
      model_file_name = ''ssd_mobilenet_v2.tar.gz'',
      model_url = ''http://download.tensorflow.org/models/object_detection/ssd_mobilenet_v2.tar.gz'',
      model_name = ''SSD MobileNet v2''\<rparr>"

text \<open>A models directory that already holds the folder of the only catalog entry.\<close>

definition populated_world :: world where
  "populated_world =
     empty_world\<lparr>csv_tables := [(''/models/models.csv'', [ssd_entry])],
                 dirs := [''/models'', ''/models/ssd_mobilenet_v2'']\<rparr>"

text \<open>Two TFRecord bundles of the source \<open>camA\<close> with the same label map.\<close>

definition two_bundles_world :: world where
  "two_bundles_world =
     empty_world\<lparr>dirs := [''/tf'', ''/tf/camA_1'', ''/tf/camA_2''],
                 files := [(''/tf/camA_1/labelmap.pbtxt'', ''item { id: 1 }''),
                           (''/tf/camA_1/a_train.record'', ''rec1''),
                           (''/tf/camA_2/labelmap.pbtxt'', ''item { id: 1 }''),
                           (''/tf/camA_2/b_train.record'', ''rec2'')]\<rparr>"


text \<open>
  A module that binds \<open>get_directory_subfolders_subset\<close> to the folders directly below a
  directory whose name contains the filter, each written with a trailing separator, and
  leaves the other three names unbound.
\<close>

definition file_ops_with_subset :: file_ops_module where
  "file_ops_with_subset =
     file_ops_py\<lparr>get_directory_subfolders_subset :=
       Some (\<lambda>w folder source.
               map (\<lambda>d. d @ ''/'')
                 (filter (\<lambda>d. fst (os_path_split d) = folder \<and> sublist source (os_path_basename d))
                    (dirs w)))\<rparr>"

section \<open>Placeholders and values of the pipeline configuration\<close>












section \<open>Project resolution\<close>

lemma get_specific_project_id_find:
  "get_specific_project_id projects name =
     (case find (\<lambda>p. project_name p = name) projects of
        None \<Rightarrow> Inl (ValueError ''Project name not found'')
      | Some p \<Rightarrow> Inr (project_id p))"
  by (induction projects) auto

text \<open>
  Claim C7. When some project of the list has the requested name, resolution returns the
  identifier of a project with that name (the first one in the list); when none has it,
  resolution fails with the not-found condition, which the code raises as a
  \<open>ValueError\<close> with the message "Project name not found".
\<close>

theorem project_resolution:
  "((\<exists>p \<in> set projects. project_name p = name) \<longrightarrow>
      (\<exists>p \<in> set projects. project_name p = name \<and>
         find (\<lambda>q. project_name q = name) projects = Some p \<and>
         get_specific_project_id projects name = Inr (project_id p)))
   \<and> ((\<forall>p \<in> set projects. project_name p \<noteq> name) \<longrightarrow>
      get_specific_project_id projects name = Inl (ValueError ''Project name not found''))"
proof (intro conjI impI)
  assume "\<exists>p \<in> set projects. project_name p = name"
  then obtain p where p: "find (\<lambda>q. project_name q = name) projects = Some p"
    by (cases "find (\<lambda>q. project_name q = name) projects") (auto simp: find_None_iff)
  then have "p \<in> set projects" "project_name p = name"
    by (auto simp: find_Some_iff)
  with p show "\<exists>p \<in> set projects. project_name p = name \<and>
         find (\<lambda>q. project_name q = name) projects = Some p \<and>
         get_specific_project_id projects name = Inr (project_id p)"
    by (auto simp: get_specific_project_id_find)
next
  assume "\<forall>p \<in> set projects. project_name p \<noteq> name"
  then have "find (\<lambda>q. project_name q = name) projects = None"
    by (auto simp: find_None_iff)
  then show "get_specific_project_id projects name = Inl (ValueError ''Project name not found'')"
    by (simp add: get_specific_project_id_find)
qed

theorem project_resolution_witness:
  "get_specific_project_id
     [\<lparr>project_id = ''ck1'', project_name = ''front''\<rparr>,
      \<lparr>project_id = ''ck2'', project_name = ''bottom''\<rparr>] ''bottom'' = Inr ''ck2''
   \<and> get_specific_project_id
     [\<lparr>project_id = ''ck1'', project_name = ''front''\<rparr>,
      \<lparr>project_id = ''ck2'', project_name = ''bottom''\<rparr>] ''side''
       = Inl (ValueError ''Project name not found'')"
  using project_resolution
    [of "[\<lparr>project_id = ''ck1'', project_name = ''front''\<rparr>,
          \<lparr>project_id = ''ck2'', project_name = ''bottom''\<rparr>]" "''bottom''"]
    project_resolution
    [of "[\<lparr>project_id = ''ck1'', project_name = ''front''\<rparr>,
          \<lparr>project_id = ''ck2'', project_name = ''bottom''\<rparr>]" "''side''"]
  by simp

section \<open>Job names\<close>

text \<open>
  Claim C10. For every file path, \<open>get_filename(file_path, with_extension=False)\<close>
  raises \<open>TypeError\<close>, since \<open>os.path.splitext\<close> is called with two arguments; so the
  loop of the training DAG raises \<open>TypeError\<close> at the first descriptor file, whatever the
  descriptors are.
\<close>

theorem get_filename_without_extension_raises:
  "get_filename file_path False = Inl TypeError
   \<and> (json_files \<noteq> [] \<longrightarrow>
        training_tasks research_folder gcp_zone get_url json_files = Inl TypeError)"
  by (cases json_files) (simp_all add: get_filename_def call_os_path_splitext_def bind_err_def)

theorem get_filename_without_extension_raises_witness:
  "get_filename ''/usr/local/airflow/data/trainable/front_cam.json'' False = Inl TypeError
   \<and> training_tasks ''/tf/research'' ''us-east1'' (\<lambda>f. Inr ''gs://bucket/front_cam'')
        [''/usr/local/airflow/data/trainable/front_cam.json''] = Inl TypeError"
  using get_filename_without_extension_raises
    [of "''/usr/local/airflow/data/trainable/front_cam.json''"
        "[''/usr/local/airflow/data/trainable/front_cam.json'']"
        "''/tf/research''" "''us-east1''" "\<lambda>f. Inr ''gs://bucket/front_cam''"]
  by (simp del: training_tasks.simps)

section \<open>Steps of the effectful operations\<close>


lemma for_each_log_only:
  "for_each xs (\<lambda>x. logging_info msg) w =
     (Inr (), w\<lparr>logged := logged w @ replicate (length xs) (INFO, msg)\<rparr>)"
proof (induction xs arbitrary: w)
  case Nil
  show ?case by (simp add: return_io_def)
next
  case (Cons x xs)
  have step: "logging_info msg w = (Inr (), w\<lparr>logged := logged w @ [(INFO, msg)]\<rparr>)"
    by (simp add: logging_info_def)
  show ?case
    by (simp add: bind_io_def step Cons)
qed

lemma for_each_cong_set:
  "(\<And>x. x \<in> set xs \<Longrightarrow> f x = g x) \<Longrightarrow> for_each xs f = for_each xs g"
  by (induction xs) auto








section \<open>Validation of the requested models\<close>



section \<open>Catalog refresh\<close>



section \<open>A failing write of the pipeline configuration\<close>

text \<open>
  Claim C8 does not hold of the code. When the write of either \<open>pipeline.config\<close> fails,
  \<open>generate_model_config\<close> logs the failure and then raises \<open>NameError\<close>, not the error of
  the write: the handler raises a name that is not bound.
\<close>

theorem config_write_failure_raises_name_error:
  assumes subst: "substitute_placeholders parse_template model_folder_ts model_config_template
       num_classes bucket_url training_batch_size training_epoch_count = Inr config_text"
    and fails: "unwritable w (model_training_folder @ ''/pipeline.config'')
       \<or> unwritable w (model_repo_folder @ ''/pipeline.config'')"
  shows "fst (generate_model_config parse_template model_training_folder model_repo_folder
            model_folder_ts model_config_template num_classes bucket_url training_batch_size
            training_epoch_count w) = Inl NameError
     \<and> (ERROR, ''An error has been raised while trying to save the model config to a file on disk'')
         \<in> set (logged (snd (generate_model_config parse_template model_training_folder
            model_repo_folder model_folder_ts model_config_template num_classes bucket_url
            training_batch_size training_epoch_count w)))"
proof (cases "unwritable w (model_training_folder @ ''/pipeline.config'')
    \<or> model_training_folder @ ''/pipeline.config'' \<in> set (dirs w)")
  case True
  then show ?thesis
    using subst
    by (auto simp: generate_model_config_def try_except_def bind_io_def write_file_def
        logging_error_def raise_io_def)
next
  case False
  with fails have "unwritable w (model_repo_folder @ ''/pipeline.config'')" by auto
  with False show ?thesis
    using subst
    by (auto simp: generate_model_config_def try_except_def bind_io_def write_file_def
        logging_error_def logging_info_def raise_io_def)
qed

theorem config_write_failure_raises_name_error_witness:
  "fst (generate_model_config (\<lambda>pat repl. Inl ReError) ''/training'' ''/repo'' ''ssd_20200101''
          ''num_classes: NUM_CLASSES'' ''3'' ''gs://bucket'' ''24'' ''1000''
          (empty_world\<lparr>unwritable := (\<lambda>p. p = ''/training/pipeline.config'')\<rparr>)) = Inl NameError"
  using config_write_failure_raises_name_error
    [of "\<lambda>pat repl. Inl ReError" "''ssd_20200101''" "''num_classes: NUM_CLASSES''" "''3''"
        "''gs://bucket''" "''24''" "''1000''" "''num_classes: 3''"
        "empty_world\<lparr>unwritable := (\<lambda>p. p = ''/training/pipeline.config'')\<rparr>"
        "''/training''" "''/repo''"]
  by (simp add: substitute_placeholders_def re_sub_def bind_err_def)


section \<open>Base-model sync of a populated directory\<close>

text \<open>
  Claim C4 does not hold of the code. The models directory of \<open>populated_world\<close> holds the
  folder of the only catalog entry, and the claim says that the sync skips this entry.
  \<open>download_and_extract_base_model\<close> reads the catalog and then raises \<open>AttributeError\<close> at
  the call of \<open>file_ops.get_subfolders_names_in_directory\<close>, before its loop: no entry is
  looked at, none is skipped, and the sync does not complete.
\<close>

theorem sync_attribute_error:
  "download_and_extract_base_model file_ops_py ''/models/models.csv'' ''/models''
       (Some [''SSD MobileNet v2'']) populated_world
     = (Inl AttributeError, populated_world)"
  by (simp add: download_and_extract_base_model_def file_ops_py_def call_attr_def bind_io_def
      read_csv_def populated_world_def empty_world_def)

section \<open>The calls of functions that \<open>file_ops\<close> does not define\<close>




section \<open>Label map comparison and TFRecord merge with the module as it is\<close>

text \<open>
  Claim C2 does not hold of the code. For two TFRecord folders of the source \<open>camA\<close> with
  identical label maps the claim says "match"; \<open>compare_label_map_file\<close> raises
  \<open>AttributeError\<close> at its first statement, the call of
  \<open>file_ops.get_directory_subfolders_subset\<close>, and gives no verdict.
\<close>

theorem compare_label_map_file_attribute_error:
  "compare_label_map_file file_ops_py ''/tf'' ''camA'' two_bundles_world
     = (Inl AttributeError, two_bundles_world)"
  by (simp add: compare_label_map_file_def file_ops_py_def call_attr_def bind_io_def)

text \<open>
  Claim C3 does not hold of the code. For the same two folders the claim says that both
  train records and the label map are copied; \<open>copy_tf_records_to_training_folder\<close> creates
  the two destination folders, raises \<open>AttributeError\<close> at the call of
  \<open>file_ops.get_directory_subfolders_subset\<close> and copies no file.
\<close>

theorem copy_tf_records_attribute_error:
  "fst (copy_tf_records_to_training_folder file_ops_py ''/tf'' ''/training/tf_records'' ''camA''
          two_bundles_world) = Inl AttributeError
   \<and> files (snd (copy_tf_records_to_training_folder file_ops_py ''/tf'' ''/training/tf_records''
          ''camA'' two_bundles_world)) = files two_bundles_world"
  by (simp add: copy_tf_records_to_training_folder_def file_ops_py_def call_attr_def bind_io_def
      folder_exist_or_create_def os_makedirs_def os_path_exists_def two_bundles_world_def
      empty_world_def Let_def)


section \<open>The same functions with a module that binds the missing name\<close>

text \<open>
  What the sync, label map comparison and TFRecord merge do after the call of the missing
  function, for a module that binds its name. This is not the behaviour of the scripts
  with \<open>utils/file_ops.py\<close>, where the call raises; it shows what the rest of these
  functions is written to do.
\<close>

lemma compare_label_map_file_too_few:
  assumes "get_directory_subfolders_subset file_ops = Some h"
    and "length (h w base_tf_record_folder video_source) \<le> 1"
  shows "compare_label_map_file file_ops base_tf_record_folder video_source w
     = (Inr None, w\<lparr>logged := logged w @
          [(WARNING, ''There were not enough dataset to compare i.g : Less than two'')]\<rparr>)"
  using assms
  by (simp add: compare_label_map_file_def call_attr_def bind_io_def logging_warn_def
      return_io_def)

lemma sync_skips_present_entries:
  assumes "get_subfolders_names_in_directory file_ops = Some h"
    and "map_of (csv_tables w) base_model_csv = Some df"
    and "\<forall>e \<in> set (select_models df required). model_folder_name e \<in> set (h w base_model_folder)"
  shows "download_and_extract_base_model file_ops base_model_csv base_model_folder required w
     = (Inr (), w\<lparr>logged := logged w @ replicate (length (select_models df required))
          (INFO, ''All base models are already present'')\<rparr>)"
proof -
  have loop: "for_each (select_models df required) (\<lambda>e.
          if model_folder_name e \<notin> set (h w base_model_folder)
          then download_model base_model_folder e
          else logging_info ''All base models are already present'')
     = for_each (select_models df required)
         (\<lambda>e. logging_info ''All base models are already present'')"
    by (rule for_each_cong_set) (simp add: assms(3))
  show ?thesis
    using assms(1,2)
    by (simp add: download_and_extract_base_model_def bind_io_def read_csv_def call_attr_def
        loop for_each_log_only)
qed

lemma compare_label_map_file_two_equal:
  "fst (compare_label_map_file file_ops_with_subset ''/tf'' ''camA'' two_bundles_world)
     = Inr (Some True)"
  by code_simp

lemma copy_tf_records_two_bundles:
  "fst (copy_tf_records_to_training_folder file_ops_with_subset ''/tf'' ''/training/tf_records''
          ''camA'' two_bundles_world) = Inr ()
   \<and> files (snd (copy_tf_records_to_training_folder file_ops_with_subset ''/tf''
          ''/training/tf_records'' ''camA'' two_bundles_world))
      = files two_bundles_world @
        [(''/training/tf_records/train/a_train.record'', ''rec1''),
         (''/training/tf_records/train/b_train.record'', ''rec2''),
         (''/training/tf_records/labelmap.pbtxt'', ''item { id: 1 }'')]"
  by code_simp

section \<open>Literal replacement: where occurrences can be\<close>

lemma replace_all_Nil: "pat \<noteq> [] \<Longrightarrow> replace_all pat v [] = []"
  by simp










section \<open>Literal replacement: no new occurrences\<close>






section \<open>Sequences of substitutions\<close>













section \<open>The text of the pipeline configuration\<close>









lemma write_file_ok:
  "\<not> unwritable w p \<Longrightarrow> p \<notin> set (dirs w) \<Longrightarrow>
     write_file p c w = (Inr (), w\<lparr>files := AList.update p c (files w)\<rparr>)"
  by (simp add: write_file_def)






end
